theory Spec2Isabelle
  imports Main
begin

section \<open>Job listings scraper and analyzer: a shallow embedding\<close>

text \<open>
  The development follows \<^verbatim>\<open>job_scraper_analyzer.py\<close>: the Collector (\<^verbatim>\<open>JobScraper\<close>)
  and the Analyzer (\<^verbatim>\<open>JobAnalyzer\<close>). A character of a Python string is modelled by its
  code point, for the code points 0 to 255 (Basic Latin and the Latin-1 Supplement): the
  character classes of \<^verbatim>\<open>re\<close> (\<^verbatim>\<open>\d\<close>, \<^verbatim>\<open>\w\<close>, \<^verbatim>\<open>\s\<close>) and the case mappings of
  \<^verbatim>\<open>str\<close> are those of Unicode on that range.
\<close>

subsection \<open>Python strings\<close>

text \<open>The ASCII letters and digits, and the letters of the range 0x80 to 0xFF that have a
  counterpart of the other case in that range: the capitals 0xC0 to 0xDE (without the
  multiplication sign 0xD7) and the small letters 0xE0 to 0xFE (without the division sign
  0xF7), in the same order.\<close>

definition ascii_lowercase :: string where
  "ascii_lowercase = ''abcdefghijklmnopqrstuvwxyz''"

definition ascii_uppercase :: string where
  "ascii_uppercase = ''ABCDEFGHIJKLMNOPQRSTUVWXYZ''"

definition digits :: string where
  "digits = ''0123456789''"

definition latin1_uppercase :: string where
  "latin1_uppercase =
     [CHR 0xC0, CHR 0xC1, CHR 0xC2, CHR 0xC3, CHR 0xC4, CHR 0xC5, CHR 0xC6, CHR 0xC7,
      CHR 0xC8, CHR 0xC9, CHR 0xCA, CHR 0xCB, CHR 0xCC, CHR 0xCD, CHR 0xCE, CHR 0xCF,
      CHR 0xD0, CHR 0xD1, CHR 0xD2, CHR 0xD3, CHR 0xD4, CHR 0xD5, CHR 0xD6,
      CHR 0xD8, CHR 0xD9, CHR 0xDA, CHR 0xDB, CHR 0xDC, CHR 0xDD, CHR 0xDE]"

definition latin1_lowercase :: string where
  "latin1_lowercase =
     [CHR 0xE0, CHR 0xE1, CHR 0xE2, CHR 0xE3, CHR 0xE4, CHR 0xE5, CHR 0xE6, CHR 0xE7,
      CHR 0xE8, CHR 0xE9, CHR 0xEA, CHR 0xEB, CHR 0xEC, CHR 0xED, CHR 0xEE, CHR 0xEF,
      CHR 0xF0, CHR 0xF1, CHR 0xF2, CHR 0xF3, CHR 0xF4, CHR 0xF5, CHR 0xF6,
      CHR 0xF8, CHR 0xF9, CHR 0xFA, CHR 0xFB, CHR 0xFC, CHR 0xFD, CHR 0xFE]"

text \<open>The characters for which \<^verbatim>\<open>str.isspace\<close> holds, which are those that \<^verbatim>\<open>\s\<close>
  matches and \<^verbatim>\<open>str.strip\<close> removes: tab, line feed, vertical tab, form feed, carriage
  return, the four separators 0x1C to 0x1F, the space, the next-line control 0x85 and the
  no-break space 0xA0.\<close>

definition whitespace :: string where
  "whitespace = [CHR 0x09, CHR 0x0A, CHR 0x0B, CHR 0x0C, CHR 0x0D,
                 CHR 0x1C, CHR 0x1D, CHR 0x1E, CHR 0x1F, CHR '' '',
                 CHR 0x85, CHR 0xA0]"

text \<open>\<^verbatim>\<open>str.islower\<close> and \<^verbatim>\<open>str.isupper\<close> of one character. Besides the letters above,
  the ordinal indicators 0xAA and 0xBA, the micro sign 0xB5, the sharp s 0xDF and the
  y with diaeresis 0xFF are lower case. A character is cased when it is one or the
  other.\<close>

definition is_lower :: "char \<Rightarrow> bool" where
  "is_lower c = (c \<in> set (ascii_lowercase @ latin1_lowercase @
                             [CHR 0xAA, CHR 0xB5, CHR 0xBA, CHR 0xDF, CHR 0xFF]))"

definition is_upper :: "char \<Rightarrow> bool" where
  "is_upper c = (c \<in> set (ascii_uppercase @ latin1_uppercase))"

definition is_cased :: "char \<Rightarrow> bool" where
  "is_cased c = (is_lower c \<or> is_upper c)"

text \<open>\<^verbatim>\<open>\d\<close>: a decimal digit; in this range, the ASCII digits only.\<close>

definition is_digit :: "char \<Rightarrow> bool" where
  "is_digit c = (c \<in> set digits)"

definition is_space :: "char \<Rightarrow> bool" where
  "is_space c = (c \<in> set whitespace)"

text \<open>\<^verbatim>\<open>\w\<close>: the underscore and the alphanumeric characters, which are the letters, the
  digits, the superscript digits 0xB2, 0xB3, 0xB9 and the fractions 0xBC to 0xBE.\<close>

definition is_word :: "char \<Rightarrow> bool" where
  "is_word c = (is_lower c \<or> is_upper c \<or> is_digit c \<or> c = CHR ''_'' \<or>
                c \<in> set [CHR 0xB2, CHR 0xB3, CHR 0xB9, CHR 0xBC, CHR 0xBD, CHR 0xBE])"

text \<open>The lower-case form of a character.\<close>

definition to_lower :: "char \<Rightarrow> char" where
  "to_lower c =
     (case map_of (zip (ascii_uppercase @ latin1_uppercase)
                       (ascii_lowercase @ latin1_lowercase)) c of
        Some d \<Rightarrow> d | None \<Rightarrow> c)"

text \<open>The title-case form of a character, which is a text: that of the sharp s is
  \<^verbatim>\<open>Ss\<close>. The title-case forms of the micro sign 0xB5 and of the y with diaeresis 0xFF
  are U+039C and U+0178, which are not characters of the range modelled; the two are left
  unchanged here, and \<open>title_representable\<close> below excludes them where a property depends
  on the title-case form of an arbitrary text.\<close>

definition to_title :: "char \<Rightarrow> string" where
  "to_title c =
     (if c = CHR 0xDF then ''Ss''
      else case map_of (zip (ascii_lowercase @ latin1_lowercase)
                            (ascii_uppercase @ latin1_uppercase)) c of
             Some d \<Rightarrow> [d] | None \<Rightarrow> [c])"


text \<open>\<^verbatim>\<open>str.lower\<close>.\<close>

definition str_lower :: "string \<Rightarrow> string" where
  "str_lower s = map to_lower s"

text \<open>\<^verbatim>\<open>str.title\<close>, as CPython computes it: a character that follows a cased character
  is put in lower case, any other character in title case. The flag is CPython's
  \<^verbatim>\<open>previous_is_cased\<close>.\<close>

fun title_from :: "bool \<Rightarrow> string \<Rightarrow> string" where
  "title_from previous_is_cased [] = []"
| "title_from previous_is_cased (c # cs) =
     (if previous_is_cased then [to_lower c] else to_title c) @ title_from (is_cased c) cs"

definition str_title :: "string \<Rightarrow> string" where
  "str_title s = title_from False s"

text \<open>\<^verbatim>\<open>str.strip()\<close>: leading and trailing whitespace removed.\<close>

definition str_strip :: "string \<Rightarrow> string" where
  "str_strip s = rev (dropWhile is_space (rev (dropWhile is_space s)))"

text \<open>\<^verbatim>\<open>str.startswith\<close> and the substring test \<^verbatim>\<open>needle in haystack\<close>.\<close>

fun startswith :: "string \<Rightarrow> string \<Rightarrow> bool" where
  "startswith s [] = True"
| "startswith [] (p # ps) = False"
| "startswith (c # cs) (p # ps) = (c = p \<and> startswith cs ps)"

fun str_contains :: "string \<Rightarrow> string \<Rightarrow> bool" where
  "str_contains needle [] = (needle = [])"
| "str_contains needle (c # cs) =
     (startswith (c # cs) needle \<or> str_contains needle cs)"

subsection \<open>Raw job records\<close>

text \<open>A job dictionary as \<^verbatim>\<open>_extract_job_data\<close> builds it: the five keys are always
  present and hold text; \<^verbatim>\<open>_safe_extract_text\<close> returns the empty string for a field
  that no selector finds.\<close>

record raw_job =
  title :: string
  company :: string
  location :: string
  salary :: string
  skills :: string

subsection \<open>Collector: cleaning of one record\<close>

text \<open>\<^verbatim>\<open>re.sub(r'\s+', ' ', s)\<close>: every maximal run of whitespace becomes one space. The
  flag says that the previous character was whitespace, so that the run has already been
  replaced.\<close>

fun sub_whitespace_from :: "bool \<Rightarrow> string \<Rightarrow> string" where
  "sub_whitespace_from in_run [] = []"
| "sub_whitespace_from in_run (c # cs) =
     (if is_space c then
        (if in_run then sub_whitespace_from True cs
         else CHR '' '' # sub_whitespace_from True cs)
      else c # sub_whitespace_from False cs)"

definition sub_whitespace :: "string \<Rightarrow> string" where
  "sub_whitespace s = sub_whitespace_from False s"

text \<open>\<^verbatim>\<open>re.sub(r'^\W+|\W+$', '', s)\<close> on a string without line breaks (it is applied
  after whitespace has been collapsed to spaces): the leading and the trailing run of
  non-word characters are removed.\<close>

definition sub_edge_nonword :: "string \<Rightarrow> string" where
  "sub_edge_nonword s =
     rev (dropWhile (\<lambda>c. \<not> is_word c) (rev (dropWhile (\<lambda>c. \<not> is_word c) s)))"

text \<open>\<^verbatim>\<open>re.sub(r'[^\w\s,.-]', '', s)\<close>: only word characters, whitespace, commas, periods
  and hyphens are kept.\<close>

definition sub_location_chars :: "string \<Rightarrow> string" where
  "sub_location_chars s =
     filter (\<lambda>c. is_word c \<or> is_space c \<or> c = CHR '','' \<or> c = CHR ''.'' \<or> c = CHR ''-'') s"

text \<open>The salary pattern
  \<^verbatim>\<open>[\d,]+(?:\.\d+)?(?:\s*(?:lakh|LPA|per annum|PA))?\<close>.
  Every part after the first is optional, so the greedy choice never has to be undone:
  the match at a position takes the longest run of digits and commas, then a decimal part
  when a period and a digit follow, then a unit when, after the longest run of whitespace,
  one of the four alternatives follows (tried in the order written). Giving whitespace
  back cannot make a unit match, since no alternative starts with whitespace.\<close>

definition is_digit_or_comma :: "char \<Rightarrow> bool" where
  "is_digit_or_comma c = (is_digit c \<or> c = CHR '','')"

definition salary_units :: "string list" where
  "salary_units = [''lakh'', ''LPA'', ''per annum'', ''PA'']"

text \<open>\<^verbatim>\<open>(?:\.\d+)?\<close> at the start of the text: the text it matches.\<close>

fun match_decimal :: "string \<Rightarrow> string" where
  "match_decimal [] = []"
| "match_decimal (c # cs) =
     (if c = CHR ''.'' \<and> takeWhile is_digit cs \<noteq> [] then c # takeWhile is_digit cs else [])"

text \<open>An alternation of literals at the start of the text: the first alternative that
  the text starts with.\<close>

fun match_alternatives :: "string list \<Rightarrow> string \<Rightarrow> string option" where
  "match_alternatives [] s = None"
| "match_alternatives (a # as) s =
     (if startswith s a then Some a else match_alternatives as s)"

text \<open>\<^verbatim>\<open>(?:\s*(?:lakh|LPA|per annum|PA))?\<close> at the start of the text.\<close>

definition match_unit :: "string \<Rightarrow> string" where
  "match_unit s =
     (case match_alternatives salary_units (dropWhile is_space s) of
        Some u \<Rightarrow> takeWhile is_space s @ u
      | None \<Rightarrow> [])"

text \<open>The match of the whole pattern at the start of a text that begins with a digit or
  a comma.\<close>

definition match_salary :: "string \<Rightarrow> string" where
  "match_salary s =
     (let number = takeWhile is_digit_or_comma s;
          decimal = match_decimal (dropWhile is_digit_or_comma s);
          unit = match_unit (drop (length decimal) (dropWhile is_digit_or_comma s))
      in number @ decimal @ unit)"

text \<open>\<^verbatim>\<open>re.search\<close> with the salary pattern: the match at the leftmost position where
  the pattern matches (\<^verbatim>\<open>group(0)\<close>), or \<open>None\<close>.\<close>

fun search_salary :: "string \<Rightarrow> string option" where
  "search_salary [] = None"
| "search_salary (c # cs) =
     (if is_digit_or_comma c then Some (match_salary (c # cs)) else search_salary cs)"

text \<open>\<^verbatim>\<open>JobScraper._clean_job_data\<close>. A field is cleaned only when it is not empty
  (\<^verbatim>\<open>if job_data.get(...)\<close>).\<close>

definition clean_job_data :: "raw_job \<Rightarrow> raw_job" where
  "clean_job_data job_data =
     (let j1 = (if title job_data \<noteq> []
                then job_data\<lparr>title := str_strip (sub_whitespace (title job_data))\<rparr>
                else job_data);
          j2 = (if company j1 \<noteq> []
                then j1\<lparr>company := sub_edge_nonword (str_strip (sub_whitespace (company j1)))\<rparr>
                else j1);
          j3 = (if location j2 \<noteq> []
                then j2\<lparr>location := sub_location_chars (str_strip (sub_whitespace (location j2)))\<rparr>
                else j2);
          j4 = (if salary j3 \<noteq> []
                then j3\<lparr>salary := (case search_salary (salary j3) of
                                      Some salary_match \<Rightarrow> salary_match
                                    | None \<Rightarrow> salary j3)\<rparr>
                else j3)
      in j4)"

subsection \<open>Collector: pages\<close>

text \<open>\<^verbatim>\<open>JobScraper._extract_job_listings\<close>, on the field texts that the selectors found
  for each job element of a page: every element is cleaned, and kept when its title is
  not empty.\<close>

fun extract_job_listings :: "raw_job list \<Rightarrow> raw_job list" where
  "extract_job_listings [] = []"
| "extract_job_listings (job_element # rest) =
     (let job_data = clean_job_data job_element
      in if title job_data \<noteq> [] then job_data # extract_job_listings rest
         else extract_job_listings rest)"

text \<open>What the body of the \<^verbatim>\<open>try\<close> in \<^verbatim>\<open>scrape_jobs\<close> meets for one page: the page is
  fetched and parsed, with the field texts of its job elements; or the request raises a
  \<^verbatim>\<open>requests.RequestException\<close> (connection error, timeout, HTTP error status); or
  some other \<^verbatim>\<open>Exception\<close> is raised.\<close>

datatype page_result = Page "raw_job list" | RequestException | OtherException

text \<open>The lines that \<^verbatim>\<open>scrape_jobs\<close> prints.\<close>

datatype log_line =
    Starting
  | ScrapingPage int
  | FoundJobs nat int
  | ErrorScraping int
  | UnexpectedError int
  | TotalScraped nat

record scraper =
  scraped :: "raw_job list"
  printed :: "log_line list"

text \<open>One iteration of the loop over the pages. \<open>scraped\<close> is \<^verbatim>\<open>self.jobs_data\<close>.\<close>

definition scrape_page :: "(int \<Rightarrow> page_result) \<Rightarrow> scraper \<Rightarrow> int \<Rightarrow> scraper" where
  "scrape_page portal s page =
     (let s1 = s\<lparr>printed := printed s @ [ScrapingPage page]\<rparr>
      in case portal page of
           Page job_elements \<Rightarrow>
             (let job_listings = extract_job_listings job_elements
              in s1\<lparr>scraped := scraped s1 @ job_listings,
                    printed := printed s1 @ [FoundJobs (length job_listings) page]\<rparr>)
         | RequestException \<Rightarrow> s1\<lparr>printed := printed s1 @ [ErrorScraping page]\<rparr>
         | OtherException \<Rightarrow> s1\<lparr>printed := printed s1 @ [UnexpectedError page]\<rparr>)"

primrec scrape_pages :: "(int \<Rightarrow> page_result) \<Rightarrow> scraper \<Rightarrow> int list \<Rightarrow> scraper" where
  "scrape_pages portal s [] = s"
| "scrape_pages portal s (page # pages) = scrape_pages portal (scrape_page portal s page) pages"

text \<open>\<^verbatim>\<open>JobScraper.scrape_jobs\<close>: the pages \<^verbatim>\<open>range(1, num_pages + 1)\<close> in order. The
  result is the scraper after the run; the value returned is its \<open>scraped\<close> field.\<close>

definition scrape_jobs :: "(int \<Rightarrow> page_result) \<Rightarrow> int \<Rightarrow> scraper \<Rightarrow> scraper" where
  "scrape_jobs portal num_pages s =
     (let s1 = s\<lparr>printed := printed s @ [Starting]\<rparr>;
          s2 = scrape_pages portal s1 [1..num_pages]
      in s2\<lparr>printed := printed s2 @ [TotalScraped (length (scraped s2))]\<rparr>)"

subsection \<open>Analyzer: the table\<close>

text \<open>The exceptions that the Analyzer's operations can raise.\<close>

datatype error = KeyError | AttributeError | TypeError

text \<open>Sequencing of two steps, the first of which may raise.\<close>

definition and_then :: "error + 'a \<Rightarrow> ('a \<Rightarrow> error + 'b) \<Rightarrow> error + 'b" where
  "and_then r f = (case r of Inl e \<Rightarrow> Inl e | Inr x \<Rightarrow> f x)"

text \<open>A cell of the table holds text, or the missing value \<^verbatim>\<open>NaN\<close>, or (in the column
  \<^verbatim>\<open>extracted_skills\<close>) a list of texts. A column is a \<^verbatim>\<open>Series\<close>; the table is a
  \<^verbatim>\<open>DataFrame\<close>: the length of its index and its columns by name, in order.\<close>

datatype cell = Str string | NaN | Lst "string list"

type_synonym series = "cell list"

record dataframe =
  index_len :: nat
  columns :: "(string \<times> series) list"

text \<open>\<^verbatim>\<open>pd.DataFrame(jobs_data)\<close> for a list of job dictionaries: one row per dictionary
  and one column per key; from the empty list, a table with no rows and no columns.\<close>

definition DataFrame :: "raw_job list \<Rightarrow> dataframe" where
  "DataFrame jobs =
     (if jobs = [] then \<lparr>index_len = 0, columns = []\<rparr>
      else \<lparr>index_len = length jobs,
            columns = [(''title'', map (\<lambda>j. Str (title j)) jobs),
                       (''company'', map (\<lambda>j. Str (company j)) jobs),
                       (''location'', map (\<lambda>j. Str (location j)) jobs),
                       (''salary'', map (\<lambda>j. Str (salary j)) jobs),
                       (''skills'', map (\<lambda>j. Str (skills j)) jobs)]\<rparr>)"

text \<open>\<^verbatim>\<open>len(df)\<close>, \<^verbatim>\<open>df.empty\<close>, \<^verbatim>\<open>name in df.columns\<close>, \<^verbatim>\<open>df[name]\<close> and
  \<^verbatim>\<open>df[name] = values\<close> (an existing column is replaced in place, a new one is added
  last).\<close>

definition len_df :: "dataframe \<Rightarrow> nat" where
  "len_df d = index_len d"

definition df_empty :: "dataframe \<Rightarrow> bool" where
  "df_empty d = (index_len d = 0 \<or> columns d = [])"

definition has_column :: "dataframe \<Rightarrow> string \<Rightarrow> bool" where
  "has_column d name = (map_of (columns d) name \<noteq> None)"

definition getitem :: "dataframe \<Rightarrow> string \<Rightarrow> error + series" where
  "getitem d name = (case map_of (columns d) name of None \<Rightarrow> Inl KeyError | Some v \<Rightarrow> Inr v)"

fun set_column :: "string \<Rightarrow> series \<Rightarrow> (string \<times> series) list \<Rightarrow> (string \<times> series) list" where
  "set_column name v [] = [(name, v)]"
| "set_column name v ((n, w) # cols) =
     (if n = name then (n, v) # cols else (n, w) # set_column name v cols)"

definition setitem :: "dataframe \<Rightarrow> string \<Rightarrow> series \<Rightarrow> dataframe" where
  "setitem d name v = d\<lparr>columns := set_column name v (columns d)\<rparr>"

text \<open>\<^verbatim>\<open>Series.fillna\<close>, \<^verbatim>\<open>Series.str.title\<close> (a cell that is not text becomes missing),
  \<^verbatim>\<open>Series.apply\<close> (the first exception of the function ends it), \<^verbatim>\<open>Series.nunique\<close>
  (the distinct values that are not missing; a list is not hashable) and
  \<^verbatim>\<open>Series.notna().sum()\<close>.\<close>

definition fillna :: "series \<Rightarrow> string \<Rightarrow> series" where
  "fillna v fill = map (\<lambda>c. case c of NaN \<Rightarrow> Str fill | Str s \<Rightarrow> Str s | Lst l \<Rightarrow> Lst l) v"

definition series_str_title :: "series \<Rightarrow> series" where
  "series_str_title v = map (\<lambda>c. case c of Str s \<Rightarrow> Str (str_title s) | NaN \<Rightarrow> NaN | Lst l \<Rightarrow> NaN) v"

fun series_apply :: "(cell \<Rightarrow> error + cell) \<Rightarrow> series \<Rightarrow> error + series" where
  "series_apply f [] = Inr []"
| "series_apply f (c # cs) =
     and_then (f c) (\<lambda>y. and_then (series_apply f cs) (\<lambda>ys. Inr (y # ys)))"

fun is_list :: "cell \<Rightarrow> bool" where
  "is_list (Lst l) = True"
| "is_list c = False"

fun notna :: "cell \<Rightarrow> bool" where
  "notna NaN = False"
| "notna c = True"

definition nunique :: "series \<Rightarrow> error + nat" where
  "nunique v = (if list_ex is_list v then Inl TypeError
                else Inr (length (remdups (filter notna v))))"

definition notna_sum :: "series \<Rightarrow> nat" where
  "notna_sum v = length (filter notna v)"

subsection \<open>Analyzer: city and skills of one record\<close>

text \<open>The two patterns of \<^verbatim>\<open>_extract_city\<close> under \<^verbatim>\<open>re.search\<close>, each giving
  \<^verbatim>\<open>group(1)\<close> or \<open>None\<close>.
  \<^verbatim>\<open>^([^,]+)\<close> matches at the start only: the longest run of characters other than a
  comma, which must not be empty.
  \<^verbatim>\<open>(\w+(?:\s+\w+)?)\<close> matches at the first word character: the word there and, when
  whitespace and another word follow it, those too.\<close>

definition search_before_comma :: "string \<Rightarrow> string option" where
  "search_before_comma s =
     (if takeWhile (\<lambda>c. c \<noteq> CHR '','') s = [] then None
      else Some (takeWhile (\<lambda>c. c \<noteq> CHR '','') s))"

definition match_one_or_two_words :: "string \<Rightarrow> string" where
  "match_one_or_two_words s =
     (let first_word = takeWhile is_word s;
          rest = dropWhile is_word s;
          gap = takeWhile is_space rest;
          second_word = takeWhile is_word (dropWhile is_space rest)
      in if gap \<noteq> [] \<and> second_word \<noteq> [] then first_word @ gap @ second_word
         else first_word)"

fun search_one_or_two_words :: "string \<Rightarrow> string option" where
  "search_one_or_two_words [] = None"
| "search_one_or_two_words (c # cs) =
     (if is_word c then Some (match_one_or_two_words (c # cs))
      else search_one_or_two_words cs)"

definition city_patterns :: "(string \<Rightarrow> string option) list" where
  "city_patterns = [search_before_comma, search_one_or_two_words]"

text \<open>The loop over the patterns: the first pattern that matches decides.\<close>

fun first_city_match :: "(string \<Rightarrow> string option) list \<Rightarrow> string \<Rightarrow> string option" where
  "first_city_match [] s = None"
| "first_city_match (pattern # patterns) s =
     (case pattern (str_strip s) of
        Some g \<Rightarrow> Some (str_strip g)
      | None \<Rightarrow> first_city_match patterns s)"

text \<open>\<^verbatim>\<open>JobAnalyzer._extract_city\<close> on text.\<close>

definition extract_city :: "string \<Rightarrow> string" where
  "extract_city loc =
     (if loc = [] \<or> loc = ''Unknown'' then ''Unknown''
      else case first_city_match city_patterns loc of
             Some city \<Rightarrow> city
           | None \<Rightarrow> loc)"

text \<open>\<^verbatim>\<open>_extract_city\<close> as \<^verbatim>\<open>Series.apply\<close> calls it on a cell. A missing value is
  truthy and differs from \<^verbatim>\<open>'Unknown'\<close>, and has no \<^verbatim>\<open>strip\<close>; an empty list is falsy,
  any other list has no \<^verbatim>\<open>strip\<close>.\<close>

fun extract_city_cell :: "cell \<Rightarrow> error + cell" where
  "extract_city_cell (Str s) = Inr (Str (extract_city s))"
| "extract_city_cell NaN = Inl AttributeError"
| "extract_city_cell (Lst l) = (if l = [] then Inr (Str ''Unknown'') else Inl AttributeError)"

definition skill_keywords :: "string list" where
  "skill_keywords =
     [''python'', ''r'', ''sql'', ''excel'', ''tableau'', ''power bi'', ''powerbi'',
      ''pandas'', ''numpy'', ''matplotlib'', ''seaborn'', ''plotly'',
      ''machine learning'', ''data visualization'', ''statistics'',
      ''business intelligence'', ''etl'', ''data mining'', ''analytics'',
      ''jupyter'', ''git'', ''hadoop'', ''spark'', ''aws'', ''azure'',
      ''mysql'', ''postgresql'', ''mongodb'', ''looker'', ''qlik'']"

text \<open>The loop of \<^verbatim>\<open>_extract_skills\<close> over the keywords; \<open>found_skills\<close> is the list
  built so far.\<close>

fun find_skills :: "string list \<Rightarrow> string \<Rightarrow> string list \<Rightarrow> string list" where
  "find_skills [] skills_lower found_skills = found_skills"
| "find_skills (skill # rest) skills_lower found_skills =
     (if str_contains skill skills_lower
      then find_skills rest skills_lower (found_skills @ [str_title skill])
      else find_skills rest skills_lower found_skills)"

text \<open>\<^verbatim>\<open>JobAnalyzer._extract_skills\<close> on text, and as \<^verbatim>\<open>Series.apply\<close> calls it on a
  cell (a missing value is truthy and has no \<^verbatim>\<open>lower\<close>).\<close>

definition extract_skills :: "string \<Rightarrow> string list" where
  "extract_skills skills_text =
     (if skills_text = [] then []
      else find_skills skill_keywords (str_lower skills_text) [])"

fun extract_skills_cell :: "cell \<Rightarrow> error + cell" where
  "extract_skills_cell (Str s) = Inr (Lst (extract_skills s))"
| "extract_skills_cell NaN = Inl AttributeError"
| "extract_skills_cell (Lst l) = (if l = [] then Inr (Lst []) else Inl AttributeError)"

subsection \<open>Analyzer: preprocessing and the summary operations\<close>

text \<open>The three blocks of \<^verbatim>\<open>JobAnalyzer._preprocess_data\<close>.\<close>

definition preprocess_location :: "dataframe \<Rightarrow> error + dataframe" where
  "preprocess_location d =
     (if has_column d ''location'' then
        and_then (getitem d ''location'') (\<lambda>v1.
        let d1 = setitem d ''location'' (fillna v1 ''Unknown'') in
        and_then (getitem d1 ''location'') (\<lambda>v2.
        let d2 = setitem d1 ''location'' (series_str_title v2) in
        and_then (getitem d2 ''location'') (\<lambda>v3.
        and_then (series_apply extract_city_cell v3) (\<lambda>city.
        Inr (setitem d2 ''city'' city)))))
      else Inr d)"

definition preprocess_company :: "dataframe \<Rightarrow> error + dataframe" where
  "preprocess_company d =
     (if has_column d ''company'' then
        and_then (getitem d ''company'') (\<lambda>v.
        Inr (setitem d ''company'' (fillna v ''Unknown'')))
      else Inr d)"

definition preprocess_skills :: "dataframe \<Rightarrow> error + dataframe" where
  "preprocess_skills d =
     (if has_column d ''skills'' then
        and_then (getitem d ''skills'') (\<lambda>v.
        and_then (series_apply extract_skills_cell v) (\<lambda>extracted.
        Inr (setitem d ''extracted_skills'' extracted)))
      else Inr d)"

definition preprocess_data :: "dataframe \<Rightarrow> error + dataframe" where
  "preprocess_data d =
     (if df_empty d then Inr d
      else and_then (preprocess_location d) (\<lambda>d1.
           and_then (preprocess_company d1) (\<lambda>d2.
           preprocess_skills d2)))"

text \<open>\<^verbatim>\<open>JobAnalyzer.__init__\<close>.\<close>

record analyzer =
  jobs_data :: "raw_job list"
  df :: dataframe

definition JobAnalyzer :: "raw_job list \<Rightarrow> error + analyzer" where
  "JobAnalyzer jobs =
     and_then (preprocess_data (DataFrame jobs)) (\<lambda>d. Inr \<lparr>jobs_data = jobs, df = d\<rparr>)"

text \<open>\<^verbatim>\<open>JobAnalyzer.generate_summary\<close>; the printed lines are left out.\<close>

record summary =
  total_jobs :: nat
  unique_companies :: nat
  unique_locations :: nat
  jobs_with_salary :: nat

definition generate_summary :: "analyzer \<Rightarrow> error + summary" where
  "generate_summary a =
     and_then (if has_column (df a) ''company''
               then and_then (getitem (df a) ''company'') nunique else Inr 0) (\<lambda>uc.
     and_then (if has_column (df a) ''location''
               then and_then (getitem (df a) ''location'') nunique else Inr 0) (\<lambda>ul.
     and_then (if has_column (df a) ''salary''
               then and_then (getitem (df a) ''salary'') (\<lambda>v. Inr (notna_sum v)) else Inr 0) (\<lambda>js.
     Inr \<lparr>total_jobs = len_df (df a), unique_companies = uc,
          unique_locations = ul, jobs_with_salary = js\<rparr>)))"

text \<open>\<^verbatim>\<open>collections.Counter\<close>: the elements counted so far with their counts, in the order
  of first occurrence; a lookup of an element that was never counted gives 0.\<close>

type_synonym counter = "(string \<times> nat) list"

fun counter_add :: "counter \<Rightarrow> string \<Rightarrow> counter" where
  "counter_add [] x = [(x, 1)]"
| "counter_add ((k, n) # rest) x =
     (if k = x then (k, n + 1) # rest else (k, n) # counter_add rest x)"

definition Counter :: "string list \<Rightarrow> counter" where
  "Counter xs = foldl counter_add [] xs"

definition counter_get :: "counter \<Rightarrow> string \<Rightarrow> nat" where
  "counter_get c k = (case map_of c k of Some n \<Rightarrow> n | None \<Rightarrow> 0)"

text \<open>The loop of \<^verbatim>\<open>get_top_skills\<close> that flattens the column: only cells that are
  lists are taken.\<close>

fun extend_all_skills :: "string list \<Rightarrow> series \<Rightarrow> string list" where
  "extend_all_skills all_skills [] = all_skills"
| "extend_all_skills all_skills (Lst skills_list # rest) =
     extend_all_skills (all_skills @ skills_list) rest"
| "extend_all_skills all_skills (c # rest) = extend_all_skills all_skills rest"

text \<open>\<^verbatim>\<open>JobAnalyzer.get_top_skills\<close>. It returns the whole counter; \<open>top_n\<close> only limits
  what is printed, which is left out.\<close>

definition get_top_skills :: "analyzer \<Rightarrow> nat \<Rightarrow> error + counter" where
  "get_top_skills a top_n =
     (if \<not> has_column (df a) ''extracted_skills'' then Inr []
      else and_then (getitem (df a) ''extracted_skills'') (\<lambda>v.
           Inr (Counter (extend_all_skills [] v))))"

text \<open>The sample records of \<^verbatim>\<open>demo_with_sample_data\<close>.\<close>

definition sample_jobs :: "raw_job list" where
  "sample_jobs =
     [\<lparr>title = ''Data Analyst - Business Intelligence'', company = ''TechCorp India'',
       location = ''Bangalore, Karnataka'', salary = ''6-8 LPA'',
       skills = ''Python, SQL, Tableau, Excel, Power BI, data visualization, business intelligence''\<rparr>,
      \<lparr>title = ''Junior Data Analyst'', company = ''Analytics Solutions'',
       location = ''Mumbai, Maharashtra'', salary = ''4-6 LPA'',
       skills = ''SQL, Excel, Python, pandas, matplotlib, data analysis, reporting''\<rparr>,
      \<lparr>title = ''Senior Data Analyst'', company = ''DataTech Pvt Ltd'',
       location = ''Hyderabad, Telangana'', salary = ''8-12 LPA'',
       skills = ''Python, R, SQL, machine learning, statistics, tableau, power bi''\<rparr>,
      \<lparr>title = ''Business Data Analyst'', company = ''Enterprise Solutions'',
       location = ''Pune, Maharashtra'', salary = ''5-7 LPA'',
       skills = ''SQL, Excel, Tableau, business intelligence, data visualization, analytics''\<rparr>,
      \<lparr>title = ''Data Analyst Intern'', company = ''StartupXYZ'',
       location = ''Bangalore, Karnataka'', salary = ''2-3 LPA'',
       skills = ''Python, pandas, numpy, matplotlib, jupyter, git, excel''\<rparr>,
      \<lparr>title = ''Financial Data Analyst'', company = ''FinanceCorps'',
       location = ''Delhi, NCR'', salary = ''7-9 LPA'',
       skills = ''SQL, Python, Excel, financial modeling, tableau, power bi, analytics''\<rparr>,
      \<lparr>title = ''Marketing Data Analyst'', company = ''AdTech Solutions'',
       location = ''Mumbai, Maharashtra'', salary = ''5-8 LPA'',
       skills = ''Python, SQL, Google Analytics, tableau, excel, marketing analytics''\<rparr>,
      \<lparr>title = ''Healthcare Data Analyst'', company = ''MedAnalytics'',
       location = ''Bangalore, Karnataka'', salary = ''6-10 LPA'',
       skills = ''R, SQL, Python, healthcare analytics, statistics, data mining''\<rparr>]"

text \<open>The columns of the table after preprocessing, for a list of records that is not
  empty: what \<^verbatim>\<open>_preprocess_data\<close> is shown below to compute.\<close>

definition normalized_columns :: "raw_job list \<Rightarrow> (string \<times> series) list" where
  "normalized_columns jobs =
     [(''title'', map (\<lambda>j. Str (title j)) jobs),
      (''company'', map (\<lambda>j. Str (company j)) jobs),
      (''location'', map (\<lambda>j. Str (str_title (location j))) jobs),
      (''salary'', map (\<lambda>j. Str (salary j)) jobs),
      (''skills'', map (\<lambda>j. Str (skills j)) jobs),
      (''city'', map (\<lambda>j. Str (extract_city (str_title (location j)))) jobs),
      (''extracted_skills'', map (\<lambda>j. Lst (extract_skills (skills j))) jobs)]"

subsection \<open>Notions used to state the properties\<close>

text \<open>The records that one page adds to \<^verbatim>\<open>self.jobs_data\<close>: those of its job elements when
  the page is fetched, none when the fetch raises.\<close>

definition page_listings :: "page_result \<Rightarrow> raw_job list" where
  "page_listings r = (case r of Page job_elements \<Rightarrow> extract_job_listings job_elements
                      | RequestException \<Rightarrow> [] | OtherException \<Rightarrow> [])"

text \<open>The pages for which the line \<^verbatim>\<open>Scraping page ...\<close> was printed, that is, the pages
  whose iteration of the loop was entered, in order.\<close>

fun attempted :: "log_line list \<Rightarrow> int list" where
  "attempted [] = []"
| "attempted (ScrapingPage page # rest) = page # attempted rest"
| "attempted (line # rest) = attempted rest"

text \<open>A portal with three pages of which the second cannot be fetched; each of the others
  has one job element with a title and one without.\<close>

definition demo_portal :: "int \<Rightarrow> page_result" where
  "demo_portal page =
     (if page = 2 then RequestException
      else Page [\<lparr>title = ''Data  Analyst'', company = ''TechCorp'', location = ''Pune'',
                  salary = ''6-8 LPA'', skills = ''SQL''\<rparr>,
                 \<lparr>title = '''', company = ''NoTitle Ltd'', location = ''Pune'',
                  salary = '''', skills = ''''\<rparr>])"

text \<open>The texts that the salary pattern
  \<^verbatim>\<open>[\d,]+(?:\.\d+)?(?:\s*(?:lakh|LPA|per annum|PA))?\<close> matches as a whole: a non-empty
  run of digits and commas; then nothing, or a period and at least one digit; then nothing,
  or whitespace (possibly none) and one of the four units.\<close>

definition salary_pattern :: "string \<Rightarrow> bool" where
  "salary_pattern m \<longleftrightarrow>
     (\<exists>number decimal unit.
        m = number @ decimal @ unit \<and>
        number \<noteq> [] \<and> list_all is_digit_or_comma number \<and>
        (decimal = [] \<or> (\<exists>ds. ds \<noteq> [] \<and> list_all is_digit ds \<and> decimal = CHR ''.'' # ds)) \<and>
        (unit = [] \<or> (\<exists>ws u. list_all is_space ws \<and> u \<in> set salary_units \<and> unit = ws @ u)))"

text \<open>A text has a substring that the salary pattern matches.\<close>

definition has_salary_match :: "string \<Rightarrow> bool" where
  "has_salary_match s \<longleftrightarrow> (\<exists>pre m post. s = pre @ m @ post \<and> salary_pattern m)"




section \<open>Properties\<close>

subsection \<open>Sequencing, substrings, and the table built by the constructor\<close>

lemma and_then_Inr [simp]: "and_then (Inr x) f = f x"
  by (simp add: and_then_def)

lemma and_then_Inl [simp]: "and_then (Inl e) f = Inl e"
  by (simp add: and_then_def)

lemma startswith_iff: "startswith s p \<longleftrightarrow> (\<exists>r. s = p @ r)"
  by (induction s p rule: startswith.induct) auto

lemma str_contains_iff: "str_contains needle hay \<longleftrightarrow> (\<exists>p s. hay = p @ needle @ s)"
proof (induction hay)
  case Nil
  then show ?case by auto
next
  case (Cons c cs)
  show ?case
  proof
    assume "str_contains needle (c # cs)"
    then consider "startswith (c # cs) needle" | "str_contains needle cs" by auto
    then show "\<exists>p s. c # cs = p @ needle @ s"
    proof cases
      case 1
      then obtain r where "c # cs = needle @ r" by (auto simp: startswith_iff)
      then have "c # cs = [] @ needle @ r" by simp
      then show ?thesis by blast
    next
      case 2
      then obtain p s where "cs = p @ needle @ s" using Cons.IH by blast
      then have "c # cs = (c # p) @ needle @ s" by simp
      then show ?thesis by blast
    qed
  next
    assume "\<exists>p s. c # cs = p @ needle @ s"
    then obtain p s where ps: "c # cs = p @ needle @ s" by blast
    show "str_contains needle (c # cs)"
    proof (cases p)
      case Nil
      with ps have "startswith (c # cs) needle" by (auto simp: startswith_iff)
      then show ?thesis by simp
    next
      case (Cons a p')
      with ps have "cs = p' @ needle @ s" by simp
      then have "str_contains needle cs" using Cons.IH by blast
      then show ?thesis by simp
    qed
  qed
qed

lemma find_skills_eq:
  "find_skills ks low acc = acc @ map str_title (filter (\<lambda>k. str_contains k low) ks)"
  by (induction ks arbitrary: acc) auto

lemma skill_keywords_nonempty: "[] \<notin> set skill_keywords"
  by (simp add: skill_keywords_def)

lemma extract_skills_eq:
  "extract_skills t = map str_title (filter (\<lambda>k. str_contains k (str_lower t)) skill_keywords)"
proof (cases "t = []")
  case True
  have "filter (\<lambda>k. str_contains k []) skill_keywords = []"
    using skill_keywords_nonempty by (auto simp: filter_empty_conv)
  with True show ?thesis by (simp add: extract_skills_def str_lower_def)
next
  case False
  then show ?thesis by (simp add: extract_skills_def find_skills_eq)
qed

lemma series_apply_city:
  "series_apply extract_city_cell (map (\<lambda>j. Str (f j)) jobs) = Inr (map (\<lambda>j. Str (extract_city (f j))) jobs)"
  by (induction jobs) auto

lemma series_apply_skills:
  "series_apply extract_skills_cell (map (\<lambda>j. Str (f j)) jobs) = Inr (map (\<lambda>j. Lst (extract_skills (f j))) jobs)"
  by (induction jobs) auto

lemma fillna_Str: "fillna (map (\<lambda>j. Str (f j)) jobs) v = map (\<lambda>j. Str (f j)) jobs"
  by (simp add: fillna_def)

lemma title_Str: "series_str_title (map (\<lambda>j. Str (f j)) jobs) = map (\<lambda>j. Str (str_title (f j))) jobs"
  by (simp add: series_str_title_def)

lemma preprocess_location_DataFrame:
  assumes "jobs \<noteq> []"
  shows "preprocess_location (DataFrame jobs) =
     Inr \<lparr>index_len = length jobs, columns = 
     [(''title'', map (\<lambda>j. Str (title j)) jobs),
      (''company'', map (\<lambda>j. Str (company j)) jobs),
      (''location'', map (\<lambda>j. Str (str_title (location j))) jobs),
      (''salary'', map (\<lambda>j. Str (salary j)) jobs),
      (''skills'', map (\<lambda>j. Str (skills j)) jobs),
      (''city'', map (\<lambda>j. Str (extract_city (str_title (location j)))) jobs)]\<rparr>"
  using assms
  by (simp add: preprocess_location_def DataFrame_def has_column_def getitem_def setitem_def
      fillna_Str title_Str series_apply_city)

lemma JobAnalyzer_nonempty:
  assumes "jobs \<noteq> []"
  shows "JobAnalyzer jobs =
     Inr \<lparr>jobs_data = jobs, df = \<lparr>index_len = length jobs, columns = normalized_columns jobs\<rparr>\<rparr>"
proof -
  have "\<not> df_empty (DataFrame jobs)"
    using assms by (simp add: df_empty_def DataFrame_def)
  then show ?thesis
    by (simp add: JobAnalyzer_def preprocess_data_def preprocess_location_DataFrame [OF assms]
      preprocess_company_def preprocess_skills_def has_column_def getitem_def setitem_def
      fillna_Str series_apply_skills normalized_columns_def)
qed

lemma JobAnalyzer_empty:
  "JobAnalyzer [] = Inr \<lparr>jobs_data = [], df = \<lparr>index_len = 0, columns = []\<rparr>\<rparr>"
  by (simp add: JobAnalyzer_def preprocess_data_def df_empty_def DataFrame_def)

lemmas summary_defs =
  generate_summary_def has_column_def getitem_def nunique_def notna_sum_def len_df_def

lemma str_lower_r:
  "CHR ''r'' \<in> set t \<or> CHR ''R'' \<in> set t \<Longrightarrow> CHR ''r'' \<in> set (str_lower t)"
proof -
  have "to_lower CHR ''r'' = CHR ''r''" "to_lower CHR ''R'' = CHR ''r''"
    by code_simp+
  then show "CHR ''r'' \<in> set t \<or> CHR ''R'' \<in> set t \<Longrightarrow> CHR ''r'' \<in> set (str_lower t)"
    unfolding str_lower_def by (metis image_eqI set_map)
qed

lemma title_r: "str_title ''r'' = ''R''"
  by code_simp

subsection \<open>The summary and the location column\<close>

text \<open>
  Claim C1 says that \<open>jobs_with_salary\<close> is the number of records whose salary is a
  non-empty string. \<^verbatim>\<open>generate_summary\<close> counts with \<^verbatim>\<open>notna()\<close>, and the empty string
  is not a missing value: for one record whose salary is the empty string the summary has
  \<open>jobs_with_salary = 1\<close>, while no record of the input has a non-empty salary.
\<close>

theorem jobs_with_salary_counts_empty_salary:
  "and_then (JobAnalyzer [\<lparr>title = ''Data Analyst'', company = ''TechCorp'', location = ''Pune'',
                           salary = [], skills = ''SQL''\<rparr>]) generate_summary
     = Inr \<lparr>total_jobs = 1, unique_companies = 1, unique_locations = 1, jobs_with_salary = 1\<rparr>
   \<and> length (filter (\<lambda>j. salary j \<noteq> [])
        [\<lparr>title = ''Data Analyst'', company = ''TechCorp'', location = ''Pune'',
          salary = [], skills = ''SQL''\<rparr>]) = 0"
  by (simp add: JobAnalyzer_nonempty normalized_columns_def summary_defs)

text \<open>
  Claim C3 says that preprocessing sets an empty location to \<^verbatim>\<open>Unknown\<close>, so that no row
  of the normalized table has an empty location. \<^verbatim>\<open>fillna('Unknown')\<close> replaces missing
  values only: for one record whose location is the empty string, the location column of
  the table holds the empty string, while the city column, through \<^verbatim>\<open>_extract_city\<close>,
  holds \<^verbatim>\<open>Unknown\<close>.
\<close>

theorem empty_location_stays_empty:
  "and_then (JobAnalyzer [\<lparr>title = ''Data Analyst'', company = ''TechCorp'', location = [],
                           salary = ''5 LPA'', skills = ''SQL''\<rparr>])
            (\<lambda>a. and_then (getitem (df a) ''location'') (\<lambda>loc.
                 and_then (getitem (df a) ''city'') (\<lambda>city. Inr (loc, city))))
     = Inr ([Str []], [Str ''Unknown''])"
  by (simp add: JobAnalyzer_nonempty normalized_columns_def getitem_def extract_city_def str_title_def)

subsection \<open>Row count and the empty input\<close>

text \<open>
  Claim C5: for every list of raw records the constructor succeeds, and the normalized
  table has as many rows as there are records: the index has that length, and so has
  every column, the derived ones included.
\<close>

theorem normalized_row_count:
  "\<exists>a. JobAnalyzer jobs = Inr a \<and> len_df (df a) = length jobs \<and>
       (\<forall>(name, v) \<in> set (columns (df a)). length v = length jobs)"
proof (cases "jobs = []")
  case True
  then show ?thesis by (simp add: JobAnalyzer_empty len_df_def)
next
  case False
  then show ?thesis by (simp add: JobAnalyzer_nonempty len_df_def normalized_columns_def)
qed

theorem normalized_row_count_witness:
  "\<exists>a. JobAnalyzer sample_jobs = Inr a \<and> len_df (df a) = 8 \<and>
       (\<forall>(name, v) \<in> set (columns (df a)). length v = 8)"
proof -
  have "length sample_jobs = 8" by (simp add: sample_jobs_def)
  with normalized_row_count [of sample_jobs] show ?thesis by simp
qed

text \<open>
  Claim C8: from the empty list the constructor returns an analyzer (it does not raise)
  whose table has no rows, and \<^verbatim>\<open>generate_summary\<close> returns, without raising, a summary
  whose four counts are zero.
\<close>

theorem empty_input_summary:
  "\<exists>a. JobAnalyzer [] = Inr a \<and> len_df (df a) = 0 \<and> columns (df a) = [] \<and>
       generate_summary a = Inr \<lparr>total_jobs = 0, unique_companies = 0,
                                 unique_locations = 0, jobs_with_salary = 0\<rparr>"
  by (simp add: JobAnalyzer_empty summary_defs)

subsection \<open>Extracted skills\<close>

text \<open>
  Claim C7: the skills extracted from a text are the keywords of the fixed list that
  occur as substrings of the lower-cased text, each title-cased, in the order of the
  keyword list; the empty text gives the empty list; and the column
  \<^verbatim>\<open>extracted_skills\<close> of the table holds exactly that for every record.
\<close>

theorem extracted_skills_keywords:
  "extract_skills skills_text =
     map str_title (filter (\<lambda>k. \<exists>p s. str_lower skills_text = p @ k @ s) skill_keywords)
   \<and> extract_skills [] = []
   \<and> (\<exists>a. JobAnalyzer jobs = Inr a \<and>
        (jobs \<noteq> [] \<longrightarrow> getitem (df a) ''extracted_skills'' =
           Inr (map (\<lambda>j. Lst (map str_title
                  (filter (\<lambda>k. \<exists>p s. str_lower (skills j) = p @ k @ s) skill_keywords))) jobs)))"
proof -
  have eq: "extract_skills t =
     map str_title (filter (\<lambda>k. \<exists>p s. str_lower t = p @ k @ s) skill_keywords)" for t
    by (simp add: extract_skills_eq str_contains_iff)
  have e: "extract_skills [] = []" by (simp add: extract_skills_def)
  have "\<exists>a. JobAnalyzer jobs = Inr a \<and>
        (jobs \<noteq> [] \<longrightarrow> getitem (df a) ''extracted_skills'' =
           Inr (map (\<lambda>j. Lst (extract_skills (skills j))) jobs))"
  proof (cases "jobs = []")
    case True
    then show ?thesis by (simp add: JobAnalyzer_empty)
  next
    case False
    then show ?thesis by (simp add: JobAnalyzer_nonempty normalized_columns_def getitem_def)
  qed
  then show ?thesis using eq e by simp
qed

theorem extracted_skills_keywords_witness:
  "[\<lparr>title = ''Analyst'', company = ''Acme'', location = ''Pune'', salary = ''5 LPA'',
     skills = ''Excel, SQL''\<rparr>] \<noteq> []
   \<and> (\<exists>a. JobAnalyzer [\<lparr>title = ''Analyst'', company = ''Acme'', location = ''Pune'',
                         salary = ''5 LPA'', skills = ''Excel, SQL''\<rparr>] = Inr a
          \<and> getitem (df a) ''extracted_skills'' = Inr [Lst [''Sql'', ''Excel'']])"
proof -
  have "map str_title (filter (\<lambda>k. \<exists>p s. str_lower ''Excel, SQL'' = p @ k @ s) skill_keywords)
        = extract_skills ''Excel, SQL''"
    by (simp add: extract_skills_eq str_contains_iff)
  also have "\<dots> = [''Sql'', ''Excel'']"
    by code_simp
  finally show ?thesis
    using extracted_skills_keywords [of "''Excel, SQL''"
        "[\<lparr>title = ''Analyst'', company = ''Acme'', location = ''Pune'', salary = ''5 LPA'',
           skills = ''Excel, SQL''\<rparr>]"]
    by simp
qed

text \<open>
  Claim C10: the keyword \<^verbatim>\<open>r\<close> is matched by substring containment, so whenever the letter
  \<open>r\<close> occurs in the lower-cased skills text (in particular whenever it occurs in the
  skills text itself) the extracted skills contain \<^verbatim>\<open>R\<close>; the text \<^verbatim>\<open>reporting\<close>, which
  does not mention the R language, gives the extracted skills \<^verbatim>\<open>['R']\<close>.
\<close>

theorem letter_r_gives_skill_R:
  "(CHR ''r'' \<in> set (str_lower skills_text) \<longrightarrow> ''R'' \<in> set (extract_skills skills_text))
   \<and> (CHR ''r'' \<in> set skills_text \<longrightarrow> ''R'' \<in> set (extract_skills skills_text))
   \<and> extract_skills ''reporting'' = [''R'']"
proof -
  have a: "''R'' \<in> set (extract_skills t)" if "CHR ''r'' \<in> set (str_lower t)" for t
  proof -
    from that obtain p s where "str_lower t = p @ ''r'' @ s"
      by (auto simp: in_set_conv_decomp)
    then have "str_contains ''r'' (str_lower t)" by (auto simp: str_contains_iff)
    moreover have "''r'' \<in> set skill_keywords" by (simp add: skill_keywords_def)
    ultimately have "str_title ''r'' \<in> set (extract_skills t)"
      by (simp add: extract_skills_eq)
    then show ?thesis by (simp add: title_r)
  qed
  have c: "extract_skills ''reporting'' = [''R'']"
    by code_simp
  show ?thesis using a str_lower_r c by blast
qed

theorem letter_r_gives_skill_R_witness:
  "CHR ''r'' \<in> set (str_lower ''Data Entry'') \<and> CHR ''r'' \<in> set ''Data Entry''
   \<and> ''R'' \<in> set (extract_skills ''Data Entry'')"
proof -
  have "CHR ''r'' \<in> set ''Data Entry''" by simp
  moreover have "CHR ''r'' \<in> set (str_lower ''Data Entry'')"
    by code_simp
  ultimately show ?thesis
    using letter_r_gives_skill_R [of "''Data Entry''"] by simp
qed

subsection \<open>The page loop of the Collector\<close>

lemma attempted_append: "attempted (xs @ ys) = attempted xs @ attempted ys"
  by (induction xs rule: attempted.induct) auto

lemma scrape_page_scraped:
  "scraped (scrape_page portal s page) = scraped s @ page_listings (portal page)"
  by (simp add: scrape_page_def page_listings_def Let_def split: page_result.split)

lemma scrape_page_attempted:
  "attempted (printed (scrape_page portal s page)) = attempted (printed s) @ [page]"
  by (simp add: scrape_page_def Let_def attempted_append split: page_result.split)

lemma scrape_pages_scraped:
  "scraped (scrape_pages portal s pages) =
     scraped s @ concat (map (\<lambda>q. page_listings (portal q)) pages)"
  by (induction pages arbitrary: s) (simp_all add: scrape_page_scraped)

lemma scrape_pages_attempted:
  "attempted (printed (scrape_pages portal s pages)) = attempted (printed s) @ pages"
  by (induction pages arbitrary: s) (simp_all add: scrape_page_attempted)

lemma scrape_jobs_scraped:
  "scraped (scrape_jobs portal num_pages s) =
     scraped s @ concat (map (\<lambda>q. page_listings (portal q)) [1..num_pages])"
  by (simp add: scrape_jobs_def Let_def scrape_pages_scraped)

lemma scrape_jobs_attempted:
  "attempted (printed (scrape_jobs portal num_pages s)) = attempted (printed s) @ [1..num_pages]"
  by (simp add: scrape_jobs_def Let_def scrape_pages_attempted attempted_append)

text \<open>
  Claim C9: when the fetch of some page \<open>p\<close> among the pages \<open>1\<close> to \<open>num_pages\<close> raises a
  transport error (\<^verbatim>\<open>requests.RequestException\<close>), \<^verbatim>\<open>scrape_jobs\<close> still enters the loop
  for every page from \<open>1\<close> to \<open>num_pages\<close> in order, those after \<open>p\<close> included; and its
  result is the records held before the run, then the records of the pages before \<open>p\<close>,
  then those of the pages after \<open>p\<close>: page \<open>p\<close> adds nothing and nothing collected earlier
  is lost.
\<close>

theorem scrape_jobs_continues_after_error:
  assumes "1 \<le> p" and "p \<le> num_pages" and "portal p = RequestException"
  shows "attempted (printed (scrape_jobs portal num_pages s))
           = attempted (printed s) @ [1..p - 1] @ p # [p + 1..num_pages]
       \<and> scraped (scrape_jobs portal num_pages s)
           = scraped s @ concat (map (\<lambda>q. page_listings (portal q)) [1..p - 1])
                       @ concat (map (\<lambda>q. page_listings (portal q)) [p + 1..num_pages])"
proof -
  have split: "[1..num_pages] = [1..p - 1] @ p # [p + 1..num_pages]"
    using assms(1,2) by (rule upto_split3)
  have "page_listings (portal p) = []"
    using assms(3) by (simp add: page_listings_def)
  then show ?thesis
    by (simp add: scrape_jobs_scraped scrape_jobs_attempted split)
qed

lemma demo_listing:
  "page_listings (demo_portal 1) = [\<lparr>title = ''Data Analyst'', company = ''TechCorp'', location = ''Pune'',
                  salary = ''6'', skills = ''SQL''\<rparr>]"
  "page_listings (demo_portal 3) = [\<lparr>title = ''Data Analyst'', company = ''TechCorp'', location = ''Pune'',
                  salary = ''6'', skills = ''SQL''\<rparr>]"
  by code_simp+

theorem scrape_jobs_continues_after_error_witness:
  "(1::int) \<le> 2 \<and> (2::int) \<le> 3 \<and> demo_portal 2 = RequestException
   \<and> attempted (printed (scrape_jobs demo_portal 3 \<lparr>scraped = [], printed = []\<rparr>)) = [1, 2, 3]
   \<and> scraped (scrape_jobs demo_portal 3 \<lparr>scraped = [], printed = []\<rparr>)
       = [\<lparr>title = ''Data Analyst'', company = ''TechCorp'', location = ''Pune'',
           salary = ''6'', skills = ''SQL''\<rparr>,
          \<lparr>title = ''Data Analyst'', company = ''TechCorp'', location = ''Pune'',
           salary = ''6'', skills = ''SQL''\<rparr>]"
proof -
  have h: "(1::int) \<le> 2" "(2::int) \<le> 3" "demo_portal 2 = RequestException"
    by (simp_all add: demo_portal_def)
  have u: "[1..(2::int) - 1] = [1]" "[(2::int) + 1..3] = [3]"
    by (simp_all add: upto.simps)
  show ?thesis
    using scrape_jobs_continues_after_error
            [of 2 3 demo_portal "\<lparr>scraped = [], printed = []\<rparr>"] h
    by (simp add: u demo_listing)
qed

subsection \<open>Counting skills\<close>

lemma counter_get_add:
  "counter_get (counter_add c x) k = counter_get c k + (if k = x then 1 else 0)"
  by (induction c x rule: counter_add.induct) (auto simp: counter_get_def)

lemma counter_get_foldl:
  "counter_get (foldl counter_add c xs) k = counter_get c k + count_list xs k"
  by (induction xs arbitrary: c) (auto simp: counter_get_add)

lemma counter_get_Counter: "counter_get (Counter xs) k = count_list xs k"
  by (simp add: Counter_def counter_get_foldl) (simp add: counter_get_def)

lemma extend_all_skills_Lst:
  "extend_all_skills acc (map (\<lambda>j. Lst (f j)) jobs) = acc @ concat (map f jobs)"
  by (induction jobs arbitrary: acc) auto

lemma count_list_concat:
  "count_list (concat xss) x = sum_list (map (\<lambda>xs. count_list xs x) xss)"
  by (induction xss) auto

lemma count_list_map_filter:
  "distinct (map f ks) \<Longrightarrow> k \<in> set ks \<Longrightarrow>
     count_list (map f (filter P ks)) (f k) = (if P k then 1 else 0)"
proof (induction ks)
  case Nil
  then show ?case by simp
next
  case (Cons a ks)
  show ?case
  proof (cases "a = k")
    case True
    with Cons.prems have "f k \<notin> set (map f (filter P ks))" by auto
    then have "count_list (map f (filter P ks)) (f k) = 0"
      by (simp add: count_list_0_iff)
    with True show ?thesis by simp
  next
    case False
    with Cons.prems have "k \<in> set ks" and "f a \<noteq> f k" and "distinct (map f ks)"
      by auto
    with Cons.IH show ?thesis by simp
  qed
qed

lemma skill_titles_distinct: "distinct (map str_title skill_keywords)"
  by code_simp

lemma count_extract_skills:
  assumes "k \<in> set skill_keywords"
  shows "count_list (extract_skills t) (str_title k) =
           (if str_contains k (str_lower t) then 1 else 0)"
  unfolding extract_skills_eq
  using skill_titles_distinct assms by (rule count_list_map_filter)

lemma sum_list_indicator:
  "sum_list (map (\<lambda>x. if P x then 1 else 0) xs) = length (filter P xs)"
  by (induction xs) auto

lemma get_top_skills_JobAnalyzer:
  "and_then (JobAnalyzer jobs) (\<lambda>a. get_top_skills a top_n)
     = Inr (Counter (concat (map (\<lambda>j. extract_skills (skills j)) jobs)))"
proof (cases "jobs = []")
  case True
  then show ?thesis
    by (simp add: JobAnalyzer_empty get_top_skills_def has_column_def Counter_def)
next
  case False
  then show ?thesis
    by (simp add: JobAnalyzer_nonempty get_top_skills_def has_column_def getitem_def
        normalized_columns_def extend_all_skills_Lst)
qed

text \<open>
  Claim C4: for every list of raw records and every keyword \<open>k\<close> of the fixed keyword
  list, \<^verbatim>\<open>get_top_skills\<close> returns a counter in which the count of \<open>k\<close> (held under the
  title-cased form in which \<open>k\<close> is emitted) is the number of records whose lower-cased
  skills text contains \<open>k\<close> as a substring.
\<close>

theorem top_skills_count:
  assumes "k \<in> set skill_keywords"
  shows "\<exists>c. and_then (JobAnalyzer jobs) (\<lambda>a. get_top_skills a top_n) = Inr c \<and>
             counter_get c (str_title k) =
               length (filter (\<lambda>j. \<exists>p s. str_lower (skills j) = p @ k @ s) jobs)"
proof -
  have "count_list (concat (map (\<lambda>j. extract_skills (skills j)) jobs)) (str_title k)
        = length (filter (\<lambda>j. str_contains k (str_lower (skills j))) jobs)"
    by (simp add: count_list_concat o_def count_extract_skills [OF assms] sum_list_indicator)
  then show ?thesis
    by (simp add: get_top_skills_JobAnalyzer counter_get_Counter str_contains_iff)
qed

theorem top_skills_count_witness:
  "''python'' \<in> set skill_keywords \<and>
   (\<exists>c. and_then (JobAnalyzer sample_jobs) (\<lambda>a. get_top_skills a 10) = Inr c \<and>
        counter_get c ''Python'' = 7)"
proof -
  have k: "''python'' \<in> set skill_keywords" by (simp add: skill_keywords_def)
  have t: "str_title ''python'' = ''Python''" by code_simp
  have "length (filter (\<lambda>j. str_contains ''python'' (str_lower (skills j))) sample_jobs) = 7"
    by code_simp
  then have n: "length (filter (\<lambda>j. \<exists>p s. str_lower (skills j) = p @ ''python'' @ s) sample_jobs) = 7"
    by (simp add: str_contains_iff)
  from top_skills_count [OF k, of sample_jobs 10] obtain c
    where r: "and_then (JobAnalyzer sample_jobs) (\<lambda>a. get_top_skills a 10) = Inr c"
      and "counter_get c (str_title ''python'') =
             length (filter (\<lambda>j. \<exists>p s. str_lower (skills j) = p @ ''python'' @ s) sample_jobs)"
    by blast
  then have "counter_get c ''Python'' = 7" by (simp only: t n)
  with r k show ?thesis by blast
qed

subsection \<open>The salary pattern\<close>

lemma match_decimal_prefix: "\<exists>post. r = match_decimal r @ post"
  by (cases r) (auto intro: exI [of _ "dropWhile is_digit (tl r)"])

lemma match_decimal_shape:
  "match_decimal r = [] \<or>
     (\<exists>ds. ds \<noteq> [] \<and> list_all is_digit ds \<and> match_decimal r = CHR ''.'' # ds)"
proof (cases r)
  case Nil
  then show ?thesis by simp
next
  case (Cons c cs)
  have "list_all is_digit (takeWhile is_digit cs)"
    by (simp add: list_all_iff) (meson set_takeWhileD)
  with Cons show ?thesis by auto
qed

lemma match_alternatives_Some:
  "match_alternatives alts s = Some u \<Longrightarrow> u \<in> set alts \<and> startswith s u"
  by (induction alts) (auto split: if_splits)

lemma match_unit_prefix: "\<exists>post. r = match_unit r @ post"
proof (cases "match_alternatives salary_units (dropWhile is_space r)")
  case None
  then show ?thesis by (simp add: match_unit_def)
next
  case (Some u)
  then obtain post where "dropWhile is_space r = u @ post"
    using match_alternatives_Some startswith_iff by blast
  then have "r = (takeWhile is_space r @ u) @ post"
    by (metis append_assoc takeWhile_dropWhile_id)
  with Some show ?thesis by (auto simp: match_unit_def)
qed

lemma match_unit_shape:
  "match_unit r = [] \<or>
     (\<exists>ws u. list_all is_space ws \<and> u \<in> set salary_units \<and> match_unit r = ws @ u)"
proof (cases "match_alternatives salary_units (dropWhile is_space r)")
  case None
  then show ?thesis by (simp add: match_unit_def)
next
  case (Some u)
  have "list_all is_space (takeWhile is_space r)"
    by (simp add: list_all_iff) (meson set_takeWhileD)
  moreover have "u \<in> set salary_units"
    using Some match_alternatives_Some by blast
  ultimately show ?thesis using Some by (auto simp: match_unit_def)
qed

lemma match_salary_prefix: "\<exists>post. s = match_salary s @ post"
proof -
  let ?r = "dropWhile is_digit_or_comma s"
  obtain p1 where p1: "?r = match_decimal ?r @ p1"
    using match_decimal_prefix by blast
  then have d: "drop (length (match_decimal ?r)) ?r = p1"
    by (metis append_eq_conv_conj)
  obtain p2 where p2: "p1 = match_unit p1 @ p2"
    using match_unit_prefix by blast
  have "s = takeWhile is_digit_or_comma s @ ?r" by simp
  also have "\<dots> = takeWhile is_digit_or_comma s @ match_decimal ?r @ match_unit p1 @ p2"
    using p1 p2 by metis
  finally have "s = match_salary s @ p2"
    by (simp add: match_salary_def Let_def d)
  then show ?thesis ..
qed

lemma match_salary_pattern:
  assumes "is_digit_or_comma c"
  shows "salary_pattern (match_salary (c # cs))"
proof -
  let ?s = "c # cs"
  let ?r = "dropWhile is_digit_or_comma ?s"
  have n: "takeWhile is_digit_or_comma ?s \<noteq> []" using assms by simp
  have a: "list_all is_digit_or_comma (takeWhile is_digit_or_comma ?s)"
    by (simp only: list_all_iff) (meson set_takeWhileD)
  show ?thesis
    unfolding salary_pattern_def
    apply (rule exI [of _ "takeWhile is_digit_or_comma ?s"])
    apply (rule exI [of _ "match_decimal ?r"])
    apply (rule exI [of _ "match_unit (drop (length (match_decimal ?r)) ?r)"])
    using n a match_decimal_shape [of ?r]
      match_unit_shape [of "drop (length (match_decimal ?r)) ?r"]
    apply (simp only: match_salary_def Let_def)
    apply blast
    done
qed

lemma search_salary_None:
  "search_salary s = None \<longleftrightarrow> (\<forall>c \<in> set s. \<not> is_digit_or_comma c)"
  by (induction s) auto

lemma search_salary_Some:
  "search_salary s = Some m \<Longrightarrow>
     \<exists>pre post. s = pre @ m @ post \<and> (\<forall>c \<in> set pre. \<not> is_digit_or_comma c) \<and> salary_pattern m"
proof (induction s)
  case Nil
  then show ?case by simp
next
  case (Cons c cs)
  show ?case
  proof (cases "is_digit_or_comma c")
    case True
    with Cons.prems have m: "m = match_salary (c # cs)" by simp
    obtain post where "c # cs = match_salary (c # cs) @ post"
      using match_salary_prefix by blast
    then have "c # cs = [] @ m @ post" using m by simp
    moreover have "salary_pattern m" using m True by (simp add: match_salary_pattern)
    ultimately show ?thesis by (metis empty_iff list.set(1))
  next
    case False
    with Cons.prems have "search_salary cs = Some m" by simp
    then obtain pre post where
      "cs = pre @ m @ post" "\<forall>c \<in> set pre. \<not> is_digit_or_comma c" "salary_pattern m"
      using Cons.IH by blast
    then have "c # cs = (c # pre) @ m @ post \<and> (\<forall>x \<in> set (c # pre). \<not> is_digit_or_comma x)
               \<and> salary_pattern m"
      using False by simp
    then show ?thesis by blast
  qed
qed

lemma salary_pattern_starts:
  assumes "salary_pattern m"
  shows "\<exists>c rest. m = c # rest \<and> is_digit_or_comma c"
proof -
  from assms obtain number decimal unit where
    "m = number @ decimal @ unit" "number \<noteq> []" "list_all is_digit_or_comma number"
    unfolding salary_pattern_def by blast
  then show ?thesis by (cases number) auto
qed

lemma has_salary_match_iff:
  "has_salary_match s \<longleftrightarrow> (\<exists>c \<in> set s. is_digit_or_comma c)"
proof
  assume "has_salary_match s"
  then obtain pre m post where s: "s = pre @ m @ post" and "salary_pattern m"
    unfolding has_salary_match_def by blast
  then obtain c rest where "m = c # rest" "is_digit_or_comma c"
    using salary_pattern_starts by blast
  with s show "\<exists>c \<in> set s. is_digit_or_comma c" by auto
next
  assume "\<exists>c \<in> set s. is_digit_or_comma c"
  then obtain c where c: "c \<in> set s" "is_digit_or_comma c" by blast
  then obtain pre post where "s = pre @ [c] @ post"
    by (auto simp: in_set_conv_decomp)
  moreover have "salary_pattern [c]"
    unfolding salary_pattern_def
    by (rule exI [of _ "[c]"], rule exI [of _ "[]"], rule exI [of _ "[]"]) (simp add: c)
  ultimately show "has_salary_match s" unfolding has_salary_match_def by blast
qed

lemma leftmost_match:
  assumes "s = pre @ x" and "\<forall>c \<in> set pre. \<not> is_digit_or_comma c"
    and "s = pre' @ m' @ post'" and "salary_pattern m'"
  shows "length pre \<le> length pre'"
proof (rule ccontr)
  assume "\<not> length pre \<le> length pre'"
  then have lt: "length pre' < length pre" by simp
  obtain c rest where m': "m' = c # rest" and c: "is_digit_or_comma c"
    using assms(4) salary_pattern_starts by blast
  have "s ! length pre' = c" using assms(3) m' by simp
  moreover have "s ! length pre' = pre ! length pre'"
    using assms(1) lt by (simp add: nth_append)
  ultimately have "c \<in> set pre" using lt by (metis nth_mem)
  with assms(2) c show False by blast
qed

lemma salary_clean_job_data:
  "salary (clean_job_data j) =
     (if salary j = [] then salary j
      else case search_salary (salary j) of Some m \<Rightarrow> m | None \<Rightarrow> salary j)"
  by (cases "search_salary (salary j)") (simp_all add: clean_job_data_def Let_def)

lemma dot_not_digit_or_comma: "\<not> is_digit_or_comma CHR ''.''" "\<not> is_digit CHR ''.''"
  by code_simp+

lemma space_not_numeric:
  assumes "is_space c"
  shows "\<not> is_digit_or_comma c" and "\<not> is_digit c" and "c \<noteq> CHR ''.''"
  using assms
  by (auto simp: is_space_def whitespace_def is_digit_or_comma_def is_digit_def digits_def)

lemma salary_unit_head:
  assumes "u \<in> set salary_units"
  shows "\<exists>h t. u = h # t \<and> \<not> is_digit_or_comma h \<and> \<not> is_digit h \<and> \<not> is_space h
               \<and> h \<noteq> CHR ''.''"
  using assms
  by (auto simp: salary_units_def is_space_def whitespace_def is_digit_or_comma_def
      is_digit_def digits_def)

lemma match_alternatives_unit:
  assumes "u \<in> set salary_units"
  shows "match_alternatives salary_units (u @ post) = Some u"
  using assms by (auto simp: salary_units_def)

lemma takeWhile_run:
  assumes "list_all P xs" and "t = [] \<or> \<not> P (hd t)"
  shows "takeWhile P (xs @ t) = xs" and "dropWhile P (xs @ t) = t"
proof -
  have t: "takeWhile P t = []" "dropWhile P t = t"
    using assms(2) by (cases t; simp)+
  have x: "\<And>x. x \<in> set xs \<Longrightarrow> P x" using assms(1) by (simp add: list_all_iff)
  show "takeWhile P (xs @ t) = xs" using x t by (simp add: takeWhile_append2)
  show "dropWhile P (xs @ t) = t" using x t by (simp add: dropWhile_append2)
qed

lemma match_unit_exact:
  assumes "list_all is_space ws" and "u \<in> set salary_units"
  shows "match_unit (ws @ u @ post) = ws @ u"
proof -
  obtain h t where "u = h # t" "\<not> is_space h"
    using salary_unit_head [OF assms(2)] by blast
  then have "u @ post = [] \<or> \<not> is_space (hd (u @ post))" by simp
  then have "takeWhile is_space (ws @ u @ post) = ws"
    and "dropWhile is_space (ws @ u @ post) = u @ post"
    using takeWhile_run [OF assms(1)] by blast+
  then show ?thesis
    by (simp add: match_unit_def match_alternatives_unit [OF assms(2)])
qed

lemma match_decimal_no_dot: "r = [] \<or> hd r \<noteq> CHR ''.'' \<Longrightarrow> match_decimal r = []"
  by (cases r) auto

text \<open>The decimal part and the unit that the pattern takes after the number are at least
  as long as those of any other way to match the pattern there.\<close>

lemma match_tail_longest:
  assumes r: "r = decimal @ unit @ post"
    and d: "decimal = [] \<or> (\<exists>ds. ds \<noteq> [] \<and> list_all is_digit ds \<and> decimal = CHR ''.'' # ds)"
    and u: "unit = [] \<or> (\<exists>ws u. list_all is_space ws \<and> u \<in> set salary_units \<and> unit = ws @ u)"
  shows "length (decimal @ unit)
           \<le> length (match_decimal r @ match_unit (drop (length (match_decimal r)) r))"
proof (cases "decimal = []")
  case True
  show ?thesis
  proof (cases "unit = []")
    case True
    with \<open>decimal = []\<close> show ?thesis by simp
  next
    case False
    then obtain ws u where wu: "list_all is_space ws" "u \<in> set salary_units" "unit = ws @ u"
      using u by blast
    obtain h t where h: "u = h # t" "h \<noteq> CHR ''.''"
      using salary_unit_head [OF wu(2)] by blast
    have "hd r \<noteq> CHR ''.''"
    proof (cases ws)
      case Nil
      then show ?thesis using r True wu(3) h by simp
    next
      case (Cons w ws')
      then have "is_space w" using wu(1) by simp
      then show ?thesis using r True wu(3) Cons space_not_numeric(3) by simp
    qed
    then have "match_decimal r = []" by (simp add: match_decimal_no_dot)
    moreover have "match_unit r = ws @ u"
      using r True wu(3) match_unit_exact [OF wu(1,2), of post] by simp
    ultimately show ?thesis using True wu(3) by simp
  qed
next
  case False
  then obtain ds where ds: "ds \<noteq> []" "list_all is_digit ds" "decimal = CHR ''.'' # ds"
    using d by blast
  show ?thesis
  proof (cases "unit = []")
    case True
    have x: "\<And>x. x \<in> set ds \<Longrightarrow> is_digit x" using ds(2) by (simp add: list_all_iff)
    have "takeWhile is_digit (ds @ post) = ds @ takeWhile is_digit post"
      using x by (simp add: takeWhile_append2)
    then have "match_decimal r = CHR ''.'' # ds @ takeWhile is_digit post"
      using r ds True by simp
    then show ?thesis using ds(3) True by simp
  next
    case False
    then obtain ws u where wu: "list_all is_space ws" "u \<in> set salary_units" "unit = ws @ u"
      using u by blast
    obtain h t where h: "u = h # t" "\<not> is_digit h"
      using salary_unit_head [OF wu(2)] by blast
    have "\<not> is_digit (hd (ws @ u @ post))"
    proof (cases ws)
      case Nil
      then show ?thesis using h by simp
    next
      case (Cons w ws')
      then have "is_space w" using wu(1) by simp
      then show ?thesis using Cons space_not_numeric(2) by simp
    qed
    then have "takeWhile is_digit (ds @ ws @ u @ post) = ds"
      using takeWhile_run(1) [OF ds(2), of "ws @ u @ post"] by simp
    then have md: "match_decimal r = CHR ''.'' # ds"
      using r ds wu(3) by simp
    then have "drop (length (match_decimal r)) r = ws @ u @ post"
      using r ds(3) wu(3) by simp
    then have "match_unit (drop (length (match_decimal r)) r) = ws @ u"
      using match_unit_exact [OF wu(1,2)] by simp
    then show ?thesis using md ds(3) wu(3) by simp
  qed
qed

lemma match_salary_longest:
  assumes s: "s = m' @ post'" and p: "salary_pattern m'"
  shows "length m' \<le> length (match_salary s)"
proof -
  from p obtain number decimal unit where
    m': "m' = number @ decimal @ unit" and n: "number \<noteq> []" "list_all is_digit_or_comma number"
    and d: "decimal = [] \<or> (\<exists>ds. ds \<noteq> [] \<and> list_all is_digit ds \<and> decimal = CHR ''.'' # ds)"
    and u: "unit = [] \<or> (\<exists>ws u. list_all is_space ws \<and> u \<in> set salary_units \<and> unit = ws @ u)"
    unfolding salary_pattern_def by blast
  let ?t = "decimal @ unit @ post'"
  have st: "s = number @ ?t" using s m' by simp
  have x: "\<And>x. x \<in> set number \<Longrightarrow> is_digit_or_comma x"
    using n(2) by (simp add: list_all_iff)
  show ?thesis
  proof (cases "decimal @ unit = []")
    case True
    have "takeWhile is_digit_or_comma s = number @ takeWhile is_digit_or_comma ?t"
      using x st by (simp add: takeWhile_append2)
    then have "length number \<le> length (match_salary s)"
      by (simp add: match_salary_def Let_def)
    then show ?thesis using m' True by simp
  next
    case False
    have "\<not> is_digit_or_comma (hd ?t)"
    proof (cases "decimal = []")
      case True
      with False obtain ws u where wu: "list_all is_space ws" "u \<in> set salary_units" "unit = ws @ u"
        using u by auto
      obtain h t where h: "u = h # t" "\<not> is_digit_or_comma h"
        using salary_unit_head [OF wu(2)] by blast
      show ?thesis
      proof (cases ws)
        case Nil
        then show ?thesis using True wu(3) h by simp
      next
        case (Cons w ws')
        then have "is_space w" using wu(1) by simp
        then show ?thesis using True wu(3) Cons space_not_numeric(1) by simp
      qed
    next
      case False
      then show ?thesis using d dot_not_digit_or_comma(1) by auto
    qed
    then have "takeWhile is_digit_or_comma s = number"
      and "dropWhile is_digit_or_comma s = ?t"
      using takeWhile_run [OF n(2), of ?t] st by simp_all
    then have "match_salary s
       = number @ match_decimal ?t @ match_unit (drop (length (match_decimal ?t)) ?t)"
      by (simp add: match_salary_def Let_def)
    moreover have "length (decimal @ unit)
           \<le> length (match_decimal ?t @ match_unit (drop (length (match_decimal ?t)) ?t))"
      using d u by (intro match_tail_longest) simp_all
    ultimately show ?thesis using m' by simp
  qed
qed

lemma search_salary_leftmost_longest:
  "search_salary s = Some m \<Longrightarrow>
     \<exists>pre rest. s = pre @ rest \<and> (\<forall>c \<in> set pre. \<not> is_digit_or_comma c) \<and>
                m = match_salary rest"
proof (induction s)
  case Nil
  then show ?case by simp
next
  case (Cons c cs)
  show ?case
  proof (cases "is_digit_or_comma c")
    case True
    with Cons.prems have "m = match_salary (c # cs)" by simp
    then have "c # cs = [] @ (c # cs) \<and> (\<forall>c \<in> set []. \<not> is_digit_or_comma c)
               \<and> m = match_salary (c # cs)"
      by simp
    then show ?thesis by blast
  next
    case False
    with Cons.prems have "search_salary cs = Some m" by simp
    then obtain pre rest where
      "cs = pre @ rest" "\<forall>c \<in> set pre. \<not> is_digit_or_comma c" "m = match_salary rest"
      using Cons.IH by blast
    then have "c # cs = (c # pre) @ rest \<and> (\<forall>x \<in> set (c # pre). \<not> is_digit_or_comma x)
               \<and> m = match_salary rest"
      using False by simp
    then show ?thesis by blast
  qed
qed

lemma salary_pattern_12_LPA: "salary_pattern ''12 LPA''"
proof -
  have a: "list_all is_digit_or_comma ''12''" by code_simp
  have b: "list_all is_space '' ''" by code_simp
  have c: "''LPA'' \<in> set salary_units" by (simp add: salary_units_def)
  have "\<exists>ws u. list_all is_space ws \<and> u \<in> set salary_units \<and> '' '' @ ''LPA'' = ws @ u"
    using b c by blast
  then have "salary_pattern (''12'' @ [] @ ('' '' @ ''LPA''))"
    unfolding salary_pattern_def using a by blast
  then show ?thesis by simp
qed

lemma clean_salary_no_break_space:
  "search_salary (''6'' @ CHR 0xA0 # ''LPA'') = Some (''6'' @ CHR 0xA0 # ''LPA'')"
  by code_simp

text \<open>
  Claim C6: for a record whose raw salary text is not empty, when some substring of the
  text matches the salary pattern, cleaning replaces the salary by the first such
  substring: it matches the pattern, no match starts to the left of it, and no match that
  starts where it starts is longer (which determines it: it is the longest match at the
  leftmost position where a match starts). When no substring matches, the salary is kept
  unchanged. For \<^verbatim>\<open>6-8 LPA\<close> the cleaned salary is \<^verbatim>\<open>6\<close>.
\<close>

theorem salary_cleaning:
  assumes "salary j \<noteq> []"
  shows "(has_salary_match (salary j) \<longrightarrow>
           (\<exists>pre post. salary j = pre @ salary (clean_job_data j) @ post \<and>
              salary_pattern (salary (clean_job_data j)) \<and>
              (\<forall>pre' m' post'. salary j = pre' @ m' @ post' \<and> salary_pattern m'
                 \<longrightarrow> length pre \<le> length pre' \<and>
                     (length pre' = length pre
                        \<longrightarrow> length m' \<le> length (salary (clean_job_data j))))))
       \<and> (\<not> has_salary_match (salary j) \<longrightarrow> salary (clean_job_data j) = salary j)
       \<and> salary (clean_job_data (j\<lparr>salary := ''6-8 LPA''\<rparr>)) = ''6''"
proof (intro conjI impI)
  assume "has_salary_match (salary j)"
  then obtain m where m: "search_salary (salary j) = Some m"
    using search_salary_None has_salary_match_iff by (cases "search_salary (salary j)") auto
  then obtain pre rest where p: "salary j = pre @ rest"
      "\<forall>c \<in> set pre. \<not> is_digit_or_comma c" "m = match_salary rest"
    using search_salary_leftmost_longest by blast
  obtain post where post: "rest = m @ post"
    using p(3) match_salary_prefix by blast
  have pat: "salary_pattern m"
    using search_salary_Some [OF m] by blast
  have c: "salary (clean_job_data j) = m"
    using assms m by (simp add: salary_clean_job_data)
  have "length pre \<le> length pre' \<and> (length pre' = length pre \<longrightarrow> length m' \<le> length m)"
    if h: "salary j = pre' @ m' @ post'" "salary_pattern m'" for pre' m' post'
  proof
    show "length pre \<le> length pre'"
      using leftmost_match [OF p(1) p(2) h] .
    show "length pre' = length pre \<longrightarrow> length m' \<le> length m"
    proof
      assume "length pre' = length pre"
      then have "rest = m' @ post'" using p(1) h(1) by simp
      then show "length m' \<le> length m"
        using match_salary_longest [OF _ h(2)] p(3) by simp
    qed
  qed
  then show "\<exists>pre post. salary j = pre @ salary (clean_job_data j) @ post \<and>
              salary_pattern (salary (clean_job_data j)) \<and>
              (\<forall>pre' m' post'. salary j = pre' @ m' @ post' \<and> salary_pattern m'
                 \<longrightarrow> length pre \<le> length pre' \<and>
                     (length pre' = length pre
                        \<longrightarrow> length m' \<le> length (salary (clean_job_data j))))"
    using p(1) post pat c by blast
next
  assume "\<not> has_salary_match (salary j)"
  then have "search_salary (salary j) = None"
    by (simp add: search_salary_None has_salary_match_iff)
  then show "salary (clean_job_data j) = salary j"
    by (simp add: salary_clean_job_data)
next
  have "search_salary ''6-8 LPA'' = Some ''6''" by code_simp
  then show "salary (clean_job_data (j\<lparr>salary := ''6-8 LPA''\<rparr>)) = ''6''"
    by (simp add: salary_clean_job_data)
qed

theorem salary_cleaning_witness:
  "salary \<lparr>title = ''Data Analyst'', company = ''TechCorp'', location = ''Pune'',
           salary = ''12 LPA'', skills = ''SQL''\<rparr> \<noteq> []
   \<and> has_salary_match ''12 LPA''
   \<and> salary (clean_job_data \<lparr>title = ''Data Analyst'', company = ''TechCorp'', location = ''Pune'',
           salary = ''12 LPA'', skills = ''SQL''\<rparr>) = ''12 LPA''
   \<and> \<not> has_salary_match ''Negotiable''
   \<and> salary (clean_job_data \<lparr>title = ''Data Analyst'', company = ''TechCorp'', location = ''Pune'',
           salary = ''Negotiable'', skills = ''SQL''\<rparr>) = ''Negotiable''"
proof -
  let ?j = "\<lparr>title = ''Data Analyst'', company = ''TechCorp'', location = ''Pune'',
           salary = ''12 LPA'', skills = ''SQL''\<rparr>"
  let ?k = "\<lparr>title = ''Data Analyst'', company = ''TechCorp'', location = ''Pune'',
           salary = ''Negotiable'', skills = ''SQL''\<rparr>"
  let ?c = "salary (clean_job_data ?j)"
  have n: "salary ?j \<noteq> []" "salary ?k \<noteq> []" by simp_all
  have h1: "has_salary_match (salary ?j)"
    unfolding has_salary_match_iff by code_simp
  have h2: "\<not> has_salary_match (salary ?k)"
    unfolding has_salary_match_iff by code_simp
  from salary_cleaning [OF n(1)] h1 obtain pre post where
    d: "salary ?j = pre @ ?c @ post"
    and l: "\<forall>pre' m' post'. salary ?j = pre' @ m' @ post' \<and> salary_pattern m'
              \<longrightarrow> length pre \<le> length pre' \<and>
                  (length pre' = length pre \<longrightarrow> length m' \<le> length ?c)"
    by blast
  have "salary ?j = [] @ ''12 LPA'' @ []" by simp
  with l salary_pattern_12_LPA
  have "length pre \<le> length ([]::string) \<and>
        (length ([]::string) = length pre \<longrightarrow> length ''12 LPA'' \<le> length ?c)"
    by blast
  then have pre: "pre = []" and len: "length ''12 LPA'' \<le> length ?c" by simp_all
  from d pre have e: "''12 LPA'' = ?c @ post" by simp
  then have "length ''12 LPA'' = length ?c + length post" by (metis length_append)
  with len have "post = []" by simp
  with e have c: "?c = ''12 LPA''" by simp
  from salary_cleaning [OF n(2)] h2 have k: "salary (clean_job_data ?k) = ''Negotiable''"
    by simp
  from n(1) h1 c h2 k show ?thesis by simp
qed

subsection \<open>The city\<close>


















end
